theory Spec2Isabelle
  imports Main "HOL-Library.Char_ord" "HOL-Library.List_Lexorder"
begin

section \<open>Time-clock service: the embedded program\<close>

text \<open>
  The module \<open>config\<close> (\<open>FUSO_HORARIO\<close>, \<open>HORARIOS_PADRAO\<close>, \<open>TOLERANCIA_MINUTOS\<close>) is
  imported by \<open>services.py\<close> but is not part of the sources. The tolerance and the default
  schedule are therefore parameters of every definition that reads them, and the current
  instant \<open>datetime.now(FUSO_HORARIO)\<close> is an argument \<open>agora\<close>.

  Strings are byte lists (UTF-8): the exit event is spelled with the two bytes of its
  accented letter. The functions of the standard library and of the store whose results
  depend on the Unicode tables or on the collation (\<open>str.lower\<close>, \<open>str.strip\<close>, the
  pattern \<open>\d+\<close>, \<open>int\<close>, \<open>strptime\<close>, SQL \<open>lower\<close> and \<open>ORDER BY\<close>) are the
  fields of a record \<open>biblioteca\<close>, an argument of every definition that calls them.
\<close>

subsection \<open>Times of day and instants\<close>

record time =
  hour :: nat
  minute :: nat
  second :: nat
  microsecond :: nat

text \<open>\<open>time(h, m)\<close> of the standard library: seconds and microseconds default to 0.\<close>

definition mk_time :: "nat \<Rightarrow> nat \<Rightarrow> time" where
  "mk_time h m = \<lparr>hour = h, minute = m, second = 0, microsecond = 0\<rparr>"

text \<open>An aware \<open>datetime\<close>: calendar date, time of day, UTC offset in minutes.\<close>

record datetime =
  year :: nat
  month :: nat
  day :: nat
  tod :: time
  utcoffset :: int

definition Entrada :: string where
  "Entrada = ''Entrada''"

definition Saida :: string where
  "Saida = ''Sa'' @ [CHR 0xC3, CHR 0xAD] @ ''da''"

definition Jornada_Finalizada :: string where
  "Jornada_Finalizada = ''Jornada Finalizada''"

text \<open>
  Modelled from the spec: \<open>config.HORARIOS_PADRAO\<close> is not among the sources. The spec names
  the default schedule as Entry 08:00 and Exit 18:00, in this order. It is used only where
  a statement needs one concrete configuration.
\<close>

definition HORARIOS_PADRAO_spec :: "(string \<times> time) list" where
  "HORARIOS_PADRAO_spec = [(Entrada, mk_time 8 0), (Saida, mk_time 18 0)]"

subsection \<open>Rendering of dates and times\<close>

definition digito :: "nat \<Rightarrow> char" where
  "digito n = ''0123456789'' ! (n mod 10)"

fun str_nat :: "nat \<Rightarrow> string" where
  "str_nat n = (if n < 10 then [digito n] else str_nat (n div 10) @ [digito n])"

declare str_nat.simps [simp del]

definition zfill :: "nat \<Rightarrow> string \<Rightarrow> string" where
  "zfill w s = replicate (w - length s) CHR ''0'' @ s"

text \<open>\<open>strftime("%Y-%m-%d")\<close> and \<open>strftime("%H:%M:%S")\<close>.\<close>

definition strftime_Ymd :: "datetime \<Rightarrow> string" where
  "strftime_Ymd d =
     zfill 4 (str_nat (year d)) @ ''-'' @ zfill 2 (str_nat (month d)) @ ''-''
       @ zfill 2 (str_nat (day d))"

definition strftime_HMS :: "time \<Rightarrow> string" where
  "strftime_HMS t =
     zfill 2 (str_nat (hour t)) @ '':'' @ zfill 2 (str_nat (minute t)) @ '':''
       @ zfill 2 (str_nat (second t))"

text \<open>
  \<open>datetime.isoformat()\<close>: the microseconds are printed only when they are not 0, and the
  UTC offset follows as a signed \<open>HH:MM\<close>.
\<close>

definition isoformat :: "datetime \<Rightarrow> string" where
  "isoformat d =
     strftime_Ymd d @ ''T'' @ strftime_HMS (tod d)
       @ (if microsecond (tod d) = 0 then [] else ''.'' @ zfill 6 (str_nat (microsecond (tod d))))
       @ (if utcoffset d < 0 then ''-'' else ''+'')
       @ zfill 2 (str_nat (nat \<bar>utcoffset d\<bar> div 60)) @ '':''
       @ zfill 2 (str_nat (nat \<bar>utcoffset d\<bar> mod 60))"

subsection \<open>The schedule resolver\<close>

text \<open>\<open>get_horario_padrao\<close>, lines 59-62. \<open>filial\<close> may be \<open>None\<close>.\<close>

definition get_horario_padrao :: "int option \<Rightarrow> string \<Rightarrow> time" where
  "get_horario_padrao filial proximo_evento =
     (if filial \<in> {Some 3, Some 4}
      then (if proximo_evento = Entrada then mk_time 7 30 else mk_time 17 30)
      else (if proximo_evento = Entrada then mk_time 8 0 else mk_time 18 0))"

text \<open>
  \<open>bater_ponto\<close>, lines 170-176: the schedule dictionary chosen from the site text.
  Dictionaries that keep their order are association lists.
\<close>

definition bater_ponto_horarios ::
  "(string \<times> time) list \<Rightarrow> string option \<Rightarrow> (string \<times> time) list" where
  "bater_ponto_horarios HORARIOS_PADRAO filial =
     (if filial \<in> {Some ''Filial 03'', Some ''Filial 3'', Some ''Filial 04'', Some ''Filial 4''}
      then [(Entrada, mk_time 7 30), (Saida, mk_time 17 30)]
      else HORARIOS_PADRAO)"

subsection \<open>The deviation engine\<close>

text \<open>
  \<open>round(x)\<close> of a quotient \<open>n / d\<close> with \<open>d > 0\<close>: to the nearest integer, a tie to the even
  one. The quotients below are minutes computed from a difference of less than a day in
  whole microseconds, which double precision separates from every tie.
\<close>

definition py_round_ratio :: "int \<Rightarrow> int \<Rightarrow> int" where
  "py_round_ratio n d =
     (let q = n div d; r = n mod d
      in if 2 * r < d then q
         else if 2 * r > d then q + 1
         else if even q then q else q + 1)"

text \<open>
  \<open>bater_ponto\<close>, lines 178-186: the expected instant is \<open>agora\<close> with the scheduled hour and
  minute and with seconds and microseconds 0; the raw deviation is the rounded number of
  minutes between the two.
\<close>

definition bater_ponto_diff_bruta :: "datetime \<Rightarrow> time \<Rightarrow> int" where
  "bater_ponto_diff_bruta agora hora_prevista =
     py_round_ratio
       (((int (hour (tod agora)) - int (hour hora_prevista)) * 3600
          + (int (minute (tod agora)) - int (minute hora_prevista)) * 60
          + int (second (tod agora))) * 1000000
        + int (microsecond (tod agora)))
       60000000"

text \<open>
  \<open>bater_ponto\<close>, lines 187-192: the conditional expression
  \<open>0 if abs(d) <= T else d - T if d > 0 else d + T\<close>, which Python reads as
  \<open>0 if ... else ((d - T) if d > 0 else (d + T))\<close>.
\<close>

definition bater_ponto_diff_final :: "int \<Rightarrow> int \<Rightarrow> int" where
  "bater_ponto_diff_final tolerancia diff_bruta =
     (if \<bar>diff_bruta\<bar> \<le> tolerancia then 0
      else (if diff_bruta > 0 then diff_bruta - tolerancia else diff_bruta + tolerancia))"

text \<open>
  \<open>atualizar_registro\<close>, lines 288-296: both instants are the stored day with seconds and
  microseconds 0, so the date cancels.
\<close>

definition atualizar_registro_diff_bruta :: "time \<Rightarrow> time \<Rightarrow> int" where
  "atualizar_registro_diff_bruta novo_obj hora_prevista =
     py_round_ratio
       (((int (hour novo_obj) - int (hour hora_prevista)) * 3600
          + (int (minute novo_obj) - int (minute hora_prevista)) * 60) * 1000000)
       60000000"

text \<open>\<open>atualizar_registro\<close>, lines 298-303: the same rule as an if/elif/else statement.\<close>

definition atualizar_registro_diff_final :: "int \<Rightarrow> int \<Rightarrow> int" where
  "atualizar_registro_diff_final tolerancia diff_bruta =
     (if \<bar>diff_bruta\<bar> \<le> tolerancia then 0
      else if diff_bruta > 0 then diff_bruta - tolerancia
      else diff_bruta + tolerancia)"

subsection \<open>Exceptions, results and messages\<close>

datatype psycopg2_error =
    OperationalError
  | UniqueViolation
  | ForeignKeyViolation

text \<open>
  An exception that leaves a function. \<open>Psycopg2\<close> stands for \<open>psycopg2.Error\<close> and its
  subclasses; \<open>KeyError\<close> and \<open>ValueError\<close> are not among them.
\<close>

datatype py_error =
    KeyError
  | ValueError
  | Psycopg2 psycopg2_error

text \<open>
  The texts of the messages are kept as constructors, one for each message of the source,
  with the values the source interpolates. \<open>msg_extra\<close> and \<open>status_final\<close> are the two
  optional parts of the confirmation of \<open>bater_ponto\<close>.
\<close>

datatype msg_extra =
    Sem_Extra
  | Min_De_Atraso int
  | Min_De_Adiantamento int

datatype status_final =
    Em_Ponto
  | Sem_Status
  | Dentro_Da_Tolerancia

datatype mensagem =
    Jornada_Ja_Registada
  | Ponto_Registado string string string msg_extra status_final
  | Registro_Nao_Encontrado
  | Formato_De_Hora_Invalido
  | Nenhuma_Alteracao
  | Registro_Atualizado
  | Erro_No_Banco_De_Dados psycopg2_error

text \<open>\<open>bater_ponto\<close>, lines 214-220.\<close>

definition bater_ponto_msg_extra :: "int \<Rightarrow> msg_extra" where
  "bater_ponto_msg_extra diff_final =
     (if diff_final \<noteq> 0
      then (if diff_final > 0 then Min_De_Atraso diff_final
            else Min_De_Adiantamento (- diff_final))
      else Sem_Extra)"

text \<open>\<open>bater_ponto\<close>, lines 222-226.\<close>

definition bater_ponto_status_final :: "int \<Rightarrow> int \<Rightarrow> status_final" where
  "bater_ponto_status_final diff_final diff_bruta =
     (if diff_final \<noteq> 0 then Sem_Status
      else if diff_bruta \<noteq> 0 then Dentro_Da_Tolerancia
      else Em_Ponto)"

subsection \<open>The store\<close>

record empresa =
  e_id :: int
  e_nome_empresa :: string
  e_cnpj :: "string option"

record funcionario =
  f_cpf :: string
  f_codigo :: string
  f_nome :: string
  f_senha :: string
  f_role :: string
  f_empresa_id :: "int option"
  f_cod_tipo :: "string option"
  f_tipo :: "string option"
  f_filial :: "string option"

record registro =
  r_id :: string
  r_cpf_funcionario :: string
  r_nome :: string
  r_data :: string
  r_hora :: string
  r_descricao :: string
  r_diferenca_min :: int
  r_observacao :: "string option"

text \<open>
  The three tables of \<open>init_db\<close>, each a list of rows, and the sequence behind the
  \<open>SERIAL\<close> key of \<open>empresas\<close>. A connection works on a copy of the committed store; only
  \<open>conn.commit()\<close> makes the copy the committed store, and \<open>get_db_connection\<close> closes a
  connection that was not committed without keeping its changes.
\<close>

record db =
  empresas :: "empresa list"
  funcionarios :: "funcionario list"
  registros :: "registro list"
  empresas_id_seq :: int

text \<open>
  Rows as the cursors return them. \<open>get_db_connection\<close> (line 53) makes
  \<open>RealDictCursor\<close> the cursor of every \<open>conn.cursor()\<close>: its rows are dictionaries keyed
  by column name, and a position is not a key. \<open>DictCursor\<close>, which \<open>atualizar_registro\<close>
  asks for, answers to both.
\<close>

datatype chave =
    Pos nat
  | Nome string

definition RealDictRow_getitem :: "(string \<times> 'v) list \<Rightarrow> chave \<Rightarrow> py_error + 'v" where
  "RealDictRow_getitem row k =
     (case k of
        Pos i \<Rightarrow> Inl KeyError
      | Nome c \<Rightarrow> (case map_of row c of None \<Rightarrow> Inl KeyError | Some v \<Rightarrow> Inr v))"

definition RealDictRow_get :: "(string \<times> 'v) list \<Rightarrow> string \<Rightarrow> 'v \<Rightarrow> 'v" where
  "RealDictRow_get row c padrao = (case map_of row c of None \<Rightarrow> padrao | Some v \<Rightarrow> v)"
subsection \<open>The text functions of the library and of the store\<close>

text \<open>
  Python strings hold Unicode text, and the functions below follow the Unicode tables of
  the interpreter, or the locale of the store. They are not part of the sources, so they
  are taken as they come:
  \<^item> \<open>str_lower\<close> is \<open>str.lower()\<close> (also behind \<open>.str.lower()\<close> of a column);
  \<^item> \<open>str_strip\<close> is \<open>str.strip()\<close>;
  \<^item> \<open>re_search_d\<close> is \<open>re.search(r'\d+', s)\<close>: the text of the match, \<open>None\<close> when
    nothing matches;
  \<^item> \<open>int_str\<close> is \<open>int(s)\<close> on the text of such a match, \<open>None\<close> when it raises
    \<open>ValueError\<close> (the limit on the number of digits);
  \<^item> \<open>strptime_HMS\<close> is \<open>datetime.strptime(s, "%H:%M:%S").time()\<close> and
    \<open>strptime_Ymd\<close> is \<open>datetime.strptime(s, "%Y-%m-%d")\<close>, \<open>None\<close> when it raises
    \<open>ValueError\<close>;
  \<^item> \<open>sql_lower\<close> is \<open>lower(...)\<close> of the store, and \<open>sql_order_by_nome_empresa\<close> gives
    company rows in the order of \<open>ORDER BY nome_empresa\<close>.
\<close>

record biblioteca =
  str_lower :: "string \<Rightarrow> string"
  str_strip :: "string \<Rightarrow> string"
  re_search_d :: "string \<Rightarrow> string option"
  int_str :: "string \<Rightarrow> int option"
  strptime_HMS :: "string \<Rightarrow> time option"
  strptime_Ymd :: "string \<Rightarrow> (nat \<times> nat \<times> nat) option"
  sql_lower :: "string \<Rightarrow> string"
  sql_order_by_nome_empresa :: "empresa list \<Rightarrow> empresa list"

subsection \<open>The library on ASCII text\<close>

text \<open>
  What these functions compute when the text is ASCII, for the concrete evaluations
  below. On other text the library goes by the Unicode tables, which these definitions
  do not hold.
\<close>

definition is_digit_ascii :: "char \<Rightarrow> bool" where
  "is_digit_ascii c = (c \<in> set ''0123456789'')"

definition digit_val_ascii :: "char \<Rightarrow> nat" where
  "digit_val_ascii c = of_char c - 48"

text \<open>\<open>int(s)\<close> on a string of decimal digits.\<close>

definition int_of_digits_ascii :: "string \<Rightarrow> nat" where
  "int_of_digits_ascii s = foldl (\<lambda>acc c. 10 * acc + digit_val_ascii c) 0 s"

text \<open>\<open>str.split(sep)\<close> for a one-character separator.\<close>

fun split_on :: "char \<Rightarrow> string \<Rightarrow> string list" where
  "split_on sep [] = [[]]"
| "split_on sep (c # cs) =
     (if c = sep then [] # split_on sep cs
      else (case split_on sep cs of
              [] \<Rightarrow> [[c]]
            | w # ws \<Rightarrow> (c # w) # ws))"

text \<open>
  A field of \<open>strptime\<close> read by one of the patterns \<open>2[0-3]|[0-1]\d|\d\<close> (\<open>%H\<close>),
  \<open>[0-5]\d|\d\<close> (\<open>%M\<close>), \<open>6[0-1]|[0-5]\d|\d\<close> (\<open>%S\<close>): one or two digits whose value does
  not exceed the bound. A field the pattern reads only in part leaves unconverted data or
  misses the separator, and \<open>strptime\<close> raises \<open>ValueError\<close> (\<open>None\<close> here).
\<close>

definition campo_ascii :: "nat \<Rightarrow> string \<Rightarrow> nat option" where
  "campo_ascii limite s =
     (if (length s = 1 \<or> length s = 2) \<and> list_all is_digit_ascii s
         \<and> int_of_digits_ascii s \<le> limite
      then Some (int_of_digits_ascii s) else None)"

text \<open>
  \<open>datetime.strptime(s, "%H:%M:%S").time()\<close>. The pattern of \<open>%S\<close> accepts 60 and 61, which
  the \<open>datetime\<close> constructor then rejects with the same \<open>ValueError\<close>.
\<close>

definition strptime_HMS_ascii :: "string \<Rightarrow> time option" where
  "strptime_HMS_ascii s =
     (case split_on CHR '':'' s of
        [h, m, sec] \<Rightarrow>
          (case (campo_ascii 23 h, campo_ascii 59 m, campo_ascii 61 sec) of
             (Some a, Some b, Some c) \<Rightarrow>
               (if c \<le> 59 then Some \<lparr>hour = a, minute = b, second = c, microsecond = 0\<rparr>
                else None)
           | _ \<Rightarrow> None)
      | _ \<Rightarrow> None)"

definition is_leap :: "nat \<Rightarrow> bool" where
  "is_leap y = (y mod 4 = 0 \<and> (y mod 100 \<noteq> 0 \<or> y mod 400 = 0))"

definition days_in_month :: "nat \<Rightarrow> nat \<Rightarrow> nat" where
  "days_in_month y m =
     (if m = 2 then (if is_leap y then 29 else 28)
      else if m \<in> {4, 6, 9, 11} then 30 else 31)"

text \<open>
  \<open>datetime.strptime(s, "%Y-%m-%d")\<close>: \<open>%Y\<close> is \<open>\d\d\d\d\<close>, \<open>%m\<close> is
  \<open>1[0-2]|0[1-9]|[1-9]\<close>, \<open>%d\<close> is \<open>3[0-1]|[1-2]\d|0[1-9]|[1-9]| [1-9]\<close>; the constructor
  rejects year 0 and a day the month does not have.
\<close>

definition campo_dia_ascii :: "string \<Rightarrow> nat option" where
  "campo_dia_ascii s =
     (case s of
        [c1, c2] \<Rightarrow> (if c1 = CHR '' '' \<and> is_digit_ascii c2 \<and> c2 \<noteq> CHR ''0''
                     then Some (digit_val_ascii c2) else campo_ascii 31 s)
      | _ \<Rightarrow> campo_ascii 31 s)"

definition strptime_Ymd_ascii :: "string \<Rightarrow> (nat \<times> nat \<times> nat) option" where
  "strptime_Ymd_ascii s =
     (case split_on CHR ''-'' s of
        [y, m, d] \<Rightarrow>
          (if length y = 4 \<and> list_all is_digit_ascii y then
             (case (campo_ascii 12 m, campo_dia_ascii d) of
                (Some mm, Some dd) \<Rightarrow>
                  (if 1 \<le> int_of_digits_ascii y \<and> 1 \<le> mm \<and> 1 \<le> dd
                      \<and> dd \<le> days_in_month (int_of_digits_ascii y) mm
                   then Some (int_of_digits_ascii y, mm, dd) else None)
              | _ \<Rightarrow> None)
           else None)
      | _ \<Rightarrow> None)"

text \<open>\<open>re.search(r'\d+', s)\<close>: the first maximal run of digits, if there is one.\<close>

definition re_search_digits_ascii :: "string \<Rightarrow> string option" where
  "re_search_digits_ascii s =
     (let r = dropWhile (\<lambda>c. \<not> is_digit_ascii c) s
      in if r = [] then None else Some (takeWhile is_digit_ascii r))"

definition lower_ascii :: "string \<Rightarrow> string" where
  "lower_ascii s =
     map (\<lambda>c. if 65 \<le> (of_char c :: nat) \<and> (of_char c :: nat) \<le> 90
               then char_of ((of_char c :: nat) + 32) else c) s"

definition is_space_ascii :: "char \<Rightarrow> bool" where
  "is_space_ascii c = ((of_char c :: nat) \<in> {9, 10, 11, 12, 13, 28, 29, 30, 31, 32})"

definition strip_ascii :: "string \<Rightarrow> string" where
  "strip_ascii s = rev (dropWhile is_space_ascii (rev (dropWhile is_space_ascii s)))"

text \<open>The byte order of the names stands for the collation.\<close>

definition biblioteca_ascii :: biblioteca where
  "biblioteca_ascii =
     \<lparr>str_lower = lower_ascii,
      str_strip = strip_ascii,
      re_search_d = re_search_digits_ascii,
      int_str = (\<lambda>s. Some (int (int_of_digits_ascii s))),
      strptime_HMS = strptime_HMS_ascii,
      strptime_Ymd = strptime_Ymd_ascii,
      sql_lower = lower_ascii,
      sql_order_by_nome_empresa = sort_key e_nome_empresa\<rparr>"

subsection \<open>Recording a punch\<close>

text \<open>
  \<open>obter_proximo_evento\<close>, lines 134-152. \<open>hoje\<close> is the clock read on line 135. The count
  query returns one row, a dictionary, so the branch of line 147 reads it.
\<close>

definition obter_proximo_evento ::
  "(string \<times> time) list \<Rightarrow> datetime \<Rightarrow> string \<Rightarrow> db \<Rightarrow> string" where
  "obter_proximo_evento HORARIOS_PADRAO hoje cpf d =
     (let hoje_str = strftime_Ymd hoje;
          result = Some [(''total'',
                     length (filter (\<lambda>r. r_cpf_funcionario r = cpf \<and> r_data r = hoje_str)
                               (registros d)))];
          num_pontos = (case result of
                          None \<Rightarrow> 0
                        | Some row \<Rightarrow> RealDictRow_get row ''total'' 0);
          eventos = map fst HORARIOS_PADRAO
      in if num_pontos < length eventos then eventos ! num_pontos else Jornada_Finalizada)"

text \<open>
  The \<open>INSERT\<close> of line 207 under the constraints of the table: the primary key \<open>id\<close> and
  the foreign key \<open>cpf_funcionario\<close>.
\<close>

definition insert_registro :: "registro \<Rightarrow> db \<Rightarrow> psycopg2_error + db" where
  "insert_registro novo_reg d =
     (if r_id novo_reg \<in> r_id ` set (registros d) then Inl UniqueViolation
      else if r_cpf_funcionario novo_reg \<notin> f_cpf ` set (funcionarios d)
      then Inl ForeignKeyViolation
      else Inr (d\<lparr>registros := registros d @ [novo_reg]\<rparr>))"

text \<open>
  \<open>bater_ponto\<close>, lines 161-168: the site of the employee. Line 168 indexes the row of
  the site query by position; with no row the site is \<open>None\<close>.
\<close>

definition bater_ponto_filial :: "string \<Rightarrow> db \<Rightarrow> py_error + string option" where
  "bater_ponto_filial cpf d =
     (case find (\<lambda>f. f_cpf f = cpf) (funcionarios d) of
        None \<Rightarrow> Inr None
      | Some f \<Rightarrow> RealDictRow_getitem [(''filial'', f_filial f)] (Pos 0))"

text \<open>
  \<open>bater_ponto\<close>, lines 155-232. \<open>agora\<close> is the clock read on line 156 and
  \<open>agora_evento\<close> the one read inside \<open>obter_proximo_evento\<close>. The function has no
  \<open>try\<close>: an exception leaves it (\<open>Inl\<close>), and nothing was committed by then.
\<close>

definition bater_ponto ::
  "(string \<times> time) list \<Rightarrow> int \<Rightarrow> datetime \<Rightarrow> datetime \<Rightarrow> string \<Rightarrow> string \<Rightarrow> db
     \<Rightarrow> (py_error + mensagem \<times> string) \<times> db" where
  "bater_ponto HORARIOS_PADRAO TOLERANCIA_MINUTOS agora agora_evento cpf nome d =
     (let proximo_evento = obter_proximo_evento HORARIOS_PADRAO agora_evento cpf d
      in if proximo_evento = Jornada_Finalizada
         then (Inr (Jornada_Ja_Registada, ''warning''), d)
         else
           (case bater_ponto_filial cpf d of
              Inl e \<Rightarrow> (Inl e, d)
            | Inr filial \<Rightarrow>
                (case map_of (bater_ponto_horarios HORARIOS_PADRAO filial) proximo_evento of
                   None \<Rightarrow> (Inl KeyError, d)
                 | Some hora_prevista \<Rightarrow>
                     (let diff_bruta = bater_ponto_diff_bruta agora hora_prevista;
                          diff_final = bater_ponto_diff_final TOLERANCIA_MINUTOS diff_bruta;
                          novo_reg = \<lparr>r_id = cpf @ ''-'' @ isoformat agora,
                                      r_cpf_funcionario = cpf,
                                      r_nome = nome,
                                      r_data = strftime_Ymd agora,
                                      r_hora = strftime_HMS (tod agora),
                                      r_descricao = proximo_evento,
                                      r_diferenca_min = diff_final,
                                      r_observacao = Some []\<rparr>
                      in (case insert_registro novo_reg d of
                            Inl e \<Rightarrow> (Inl (Psycopg2 e), d)
                          | Inr d' \<Rightarrow>
                              (Inr (Ponto_Registado proximo_evento nome
                                      (strftime_HMS (tod agora))
                                      (bater_ponto_msg_extra diff_final)
                                      (bater_ponto_status_final diff_final diff_bruta),
                                    ''success''),
                               d'))))))"

subsection \<open>Correcting a punch\<close>

text \<open>
  \<open>atualizar_registro\<close>, lines 281-284: the site number read from the site text. An
  empty text and a text with no match give \<open>None\<close>; \<open>int\<close> may raise.
\<close>

definition filial_num :: "biblioteca \<Rightarrow> string option \<Rightarrow> py_error + int option" where
  "filial_num B filial_tx =
     (case filial_tx of
        None \<Rightarrow> Inr None
      | Some tx \<Rightarrow>
          (if tx = [] then Inr None
           else (case re_search_d B tx of
                   None \<Rightarrow> Inr None
                 | Some m \<Rightarrow>
                     (case int_str B m of
                        None \<Rightarrow> Inl ValueError
                      | Some n \<Rightarrow> Inr (Some n)))))"

text \<open>\<open>atualizar_registro\<close>, lines 281-286: the expected time of the punch.\<close>

definition atualizar_registro_hora_prevista ::
  "biblioteca \<Rightarrow> string option \<Rightarrow> string \<Rightarrow> py_error + time" where
  "atualizar_registro_hora_prevista B filial_tx descricao =
     (case filial_num B filial_tx of
        Inl e \<Rightarrow> Inl e
      | Inr n \<Rightarrow> Inr (get_horario_padrao n descricao))"

text \<open>
  A failure of the store is an argument: \<open>falha = Some k\<close> makes the \<open>k\<close>-th store
  operation of \<open>atualizar_registro\<close> raise \<open>psycopg2.OperationalError\<close> when the call gets
  there. The operations are numbered as they stand in the source: 0 the connection, 1 the
  \<open>SELECT\<close> of line 246, 2 the \<open>UPDATE\<close> of line 255, 3 the \<open>SELECT\<close> of line 268, 4 the
  \<open>UPDATE\<close> of line 305, 5 the commit of line 315.
\<close>

text \<open>Lines 254-259: the new table and \<open>cursor.rowcount\<close>.\<close>

definition atualizar_observacao ::
  "nat option \<Rightarrow> string \<Rightarrow> string option \<Rightarrow> db \<Rightarrow> py_error + db \<times> nat" where
  "atualizar_observacao falha id_registro nova_observacao tx =
     (case nova_observacao of
        None \<Rightarrow> Inr (tx, 0)
      | Some obs \<Rightarrow>
          (if falha = Some 2 then Inl (Psycopg2 OperationalError)
           else Inr (tx\<lparr>registros :=
                          map (\<lambda>r. if r_id r = id_registro then r\<lparr>r_observacao := Some obs\<rparr>
                                    else r)
                            (registros tx)\<rparr>,
                     length (filter (\<lambda>r. r_id r = id_registro) (registros tx)))))"

text \<open>The join of lines 268-274: the first row of the punch with the site of its employee.\<close>

definition select_registro_filial :: "string \<Rightarrow> db \<Rightarrow> (string \<times> string \<times> string option) option" where
  "select_registro_filial id_registro tx =
     (case [(r_descricao r, r_data r, f_filial f).
              r \<leftarrow> registros tx, r_id r = id_registro,
              f \<leftarrow> funcionarios tx, f_cpf f = r_cpf_funcionario r] of
        [] \<Rightarrow> None
      | x # _ \<Rightarrow> Some x)"

text \<open>
  Lines 261-309. The result is an exception (\<open>Inl\<close>), a \<open>return\<close> inside the \<open>with\<close> block
  (\<open>Inr (Inl ...)\<close>) or the new table with \<open>cursor.rowcount\<close>. \<open>int\<close> of the site number
  and \<open>strptime\<close> of the stored date raise \<open>ValueError\<close>, which the handler of line 320
  does not catch.
\<close>

definition atualizar_horario ::
  "biblioteca \<Rightarrow> int \<Rightarrow> nat option \<Rightarrow> string \<Rightarrow> string option \<Rightarrow> db
     \<Rightarrow> py_error + ((mensagem \<times> string) + db \<times> nat)" where
  "atualizar_horario B TOLERANCIA_MINUTOS falha id_registro novo_horario tx =
     (case novo_horario of
        None \<Rightarrow> Inr (Inr (tx, 0))
      | Some s \<Rightarrow>
          (case strptime_HMS B s of
             None \<Rightarrow> Inr (Inl (Formato_De_Hora_Invalido, ''error''))
           | Some novo_obj \<Rightarrow>
               (if falha = Some 3 then Inl (Psycopg2 OperationalError)
                else
                  (case select_registro_filial id_registro tx of
                     None \<Rightarrow> Inr (Inr (tx, 0))
                   | Some (descricao, data_str, filial_tx) \<Rightarrow>
                       (case atualizar_registro_hora_prevista B filial_tx descricao of
                          Inl e \<Rightarrow> Inl e
                        | Inr hora_prevista \<Rightarrow>
                            (case strptime_Ymd B data_str of
                               None \<Rightarrow> Inl ValueError
                             | Some dt_reg_dia \<Rightarrow>
                                 (let diff_bruta =
                                        atualizar_registro_diff_bruta novo_obj hora_prevista;
                                      diff_final =
                                        atualizar_registro_diff_final TOLERANCIA_MINUTOS
                                          diff_bruta
                                  in if falha = Some 4 then Inl (Psycopg2 OperationalError)
                                     else Inr (Inr
                                       (tx\<lparr>registros :=
                                              map (\<lambda>r. if r_id r = id_registro
                                                        then r\<lparr>r_hora := s,
                                                               r_diferenca_min := diff_final\<rparr>
                                                        else r)
                                                (registros tx)\<rparr>,
                                        length (filter (\<lambda>r. r_id r = id_registro)
                                                  (registros tx)))))))))))"

text \<open>The body of the \<open>try\<close>, lines 242-318, up to and including the commit.\<close>

definition atualizar_registro_corpo ::
  "biblioteca \<Rightarrow> int \<Rightarrow> nat option \<Rightarrow> string \<Rightarrow> string option \<Rightarrow> string option \<Rightarrow> db
     \<Rightarrow> py_error + ((mensagem \<times> string) + db)" where
  "atualizar_registro_corpo B TOLERANCIA_MINUTOS falha id_registro novo_horario nova_observacao d =
     (if falha = Some 0 \<or> falha = Some 1 then Inl (Psycopg2 OperationalError)
      else
        (case find (\<lambda>r. r_id r = id_registro) (registros d) of
           None \<Rightarrow> Inr (Inl (Registro_Nao_Encontrado, ''error''))
         | Some registro_existente \<Rightarrow>
             (case atualizar_observacao falha id_registro nova_observacao d of
                Inl e \<Rightarrow> Inl e
              | Inr (tx1, n1) \<Rightarrow>
                  (case atualizar_horario B TOLERANCIA_MINUTOS falha id_registro novo_horario
                          tx1 of
                     Inl e \<Rightarrow> Inl e
                   | Inr (Inl ret) \<Rightarrow> Inr (Inl ret)
                   | Inr (Inr (tx2, n2)) \<Rightarrow>
                       (if n1 + n2 = 0 then Inr (Inl (Nenhuma_Alteracao, ''warning''))
                        else if falha = Some 5 then Inl (Psycopg2 OperationalError)
                        else Inr (Inr tx2))))))"

text \<open>
  \<open>atualizar_registro\<close>, lines 240-322: the returned pair or the exception that leaves the
  function, and the committed store afterwards. Only the path through line 315 commits.
\<close>

definition atualizar_registro ::
  "biblioteca \<Rightarrow> int \<Rightarrow> nat option \<Rightarrow> string \<Rightarrow> string option \<Rightarrow> string option \<Rightarrow> db
     \<Rightarrow> (py_error + mensagem \<times> string) \<times> db" where
  "atualizar_registro B TOLERANCIA_MINUTOS falha id_registro novo_horario nova_observacao d =
     (case atualizar_registro_corpo B TOLERANCIA_MINUTOS falha id_registro novo_horario
             nova_observacao d of
        Inl (Psycopg2 e) \<Rightarrow> (Inr (Erro_No_Banco_De_Dados e, ''error''), d)
      | Inl e \<Rightarrow> (Inl e, d)
      | Inr (Inl ret) \<Rightarrow> (Inr ret, d)
      | Inr (Inr tx) \<Rightarrow> (Inr (Registro_Atualizado, ''success''), tx))"

subsection \<open>Bulk import of employees\<close>








datatype erro_importacao =
    Erro_Critico
  | Dados_Incompletos int
  | Erro_Linha int py_error
  | Erro_Geral_Banco psycopg2_error

text \<open>The variables of \<open>importar_funcionarios_em_massa\<close> that its loop changes.\<close>

record estado_importacao =
  novos_funcionarios :: "funcionario list"
  erros :: "erro_importacao list"
  ignorados_count :: nat
  cpfs_existentes :: "string list"
  empresas_existentes :: "string \<rightharpoonup> int"
  tx :: db









subsection \<open>A small store for concrete evaluations\<close>

text \<open>
  One company, one employee of the head office with one exit punch on 9 March 2025
  (18:25, 15 minutes late under a tolerance of 10), a later instant, and an upload of
  three rows.
\<close>

definition db_exemplo :: db where
  "db_exemplo =
     \<lparr>empresas = [\<lparr>e_id = 1, e_nome_empresa = ''Acme'', e_cnpj = None\<rparr>],
      funcionarios =
        [\<lparr>f_cpf = ''11122233344'', f_codigo = ''C1'', f_nome = ''Ana'', f_senha = ''x'',
          f_role = ''employee'', f_empresa_id = Some 1, f_cod_tipo = None, f_tipo = None,
          f_filial = Some ''Matriz''\<rparr>],
      registros =
        [\<lparr>r_id = ''11122233344-2025-03-09T18:25:00-03:00'',
          r_cpf_funcionario = ''11122233344'', r_nome = ''Ana'', r_data = ''2025-03-09'',
          r_hora = ''18:25:00'', r_descricao = Saida, r_diferenca_min = 15,
          r_observacao = Some []\<rparr>],
      empresas_id_seq = 1\<rparr>"

text \<open>A configuration other than the default one: each event an hour later.\<close>

definition HORARIOS_PADRAO_alterado :: "(string \<times> time) list" where
  "HORARIOS_PADRAO_alterado = [(Entrada, mk_time 9 0), (Saida, mk_time 19 0)]"

definition agora_exemplo :: datetime where
  "agora_exemplo =
     \<lparr>year = 2025, month = 3, day = 10,
      tod = \<lparr>hour = 8, minute = 7, second = 0, microsecond = 0\<rparr>,
      utcoffset = - 180\<rparr>"




section \<open>Verified properties\<close>

subsection \<open>Auxiliary facts\<close>

lemma Entrada_neq_Saida: "Entrada \<noteq> Saida" "Saida \<noteq> Entrada"
  by (simp_all add: Entrada_def Saida_def)

lemma mk_time_eq: "(mk_time a b = mk_time c d) = (a = c \<and> b = d)"
  by (auto simp: mk_time_def)

subsection \<open>The tolerance band\<close>

text \<open>
  C1. For a tolerance \<open>T \<ge> 0\<close> and a raw deviation \<open>r\<close>, the deviation stored by the
  recording flow and by the correction flow is the same number; it is 0 exactly when
  \<open>|r| \<le> T\<close>; otherwise it is \<open>r - T\<close> for positive \<open>r\<close> and \<open>r + T\<close> for negative \<open>r\<close>, so it
  keeps the sign of \<open>r\<close> and has magnitude \<open>|r| - T\<close>.
\<close>

theorem C1_tolerance_band:
  assumes "0 \<le> T"
  shows "bater_ponto_diff_final T r = atualizar_registro_diff_final T r
    \<and> ((bater_ponto_diff_final T r = 0) = (\<bar>r\<bar> \<le> T))
    \<and> (if \<bar>r\<bar> \<le> T then bater_ponto_diff_final T r = 0
        else if r > 0 then bater_ponto_diff_final T r = r - T
        else r < 0 \<and> bater_ponto_diff_final T r = r + T)
    \<and> (if \<bar>r\<bar> \<le> T then True
        else sgn (bater_ponto_diff_final T r) = sgn r
           \<and> \<bar>bater_ponto_diff_final T r\<bar> = \<bar>r\<bar> - T)"
  using assms
  by (auto simp: bater_ponto_diff_final_def atualizar_registro_diff_final_def)

theorem C1_tolerance_band_witness:
  "bater_ponto_diff_final 10 25 = 15 \<and> atualizar_registro_diff_final 10 25 = 15
     \<and> sgn (bater_ponto_diff_final 10 25) = sgn (25::int)
     \<and> \<bar>bater_ponto_diff_final 10 25\<bar> = \<bar>25::int\<bar> - 10"
  using C1_tolerance_band [of 10 25] by simp

subsection \<open>Recording a punch\<close>

lemma strftime_Ymd_agora_exemplo: "strftime_Ymd agora_exemplo = ''2025-03-10''"
  by code_simp

lemma obter_proximo_evento_exemplo:
  "obter_proximo_evento HORARIOS_PADRAO_spec agora_exemplo c db_exemplo = Entrada"
  by (simp add: obter_proximo_evento_def db_exemplo_def HORARIOS_PADRAO_spec_def
      RealDictRow_get_def strftime_Ymd_agora_exemplo)

lemma obter_proximo_evento_alterado:
  "obter_proximo_evento HORARIOS_PADRAO_alterado agora_exemplo c db_exemplo = Entrada"
  by (simp add: obter_proximo_evento_def db_exemplo_def HORARIOS_PADRAO_alterado_def
      RealDictRow_get_def strftime_Ymd_agora_exemplo)

text \<open>
  What the next-event rule does under the two-event configuration: no punch today gives
  Entry, one gives Exit, two or more close the day.
\<close>

lemma obter_proximo_evento_spec:
  "obter_proximo_evento HORARIOS_PADRAO_spec hoje cpf d =
     (let n = length (filter (\<lambda>r. r_cpf_funcionario r = cpf \<and> r_data r = strftime_Ymd hoje)
                        (registros d))
      in if n = 0 then Entrada else if n = 1 then Saida else Jornada_Finalizada)"
  by (auto simp: obter_proximo_evento_def HORARIOS_PADRAO_spec_def RealDictRow_get_def Let_def
      nth_Cons split: nat.splits)

lemma bater_ponto_jornada_finalizada:
  "obter_proximo_evento HP hoje cpf d = Jornada_Finalizada
     \<Longrightarrow> bater_ponto HP T agora hoje cpf nome d = (Inr (Jornada_Ja_Registada, ''warning''), d)"
  by (simp add: bater_ponto_def)

text \<open>The site query gives a site only when there is no employee row, and then \<open>None\<close>.\<close>

lemma bater_ponto_filial_cases:
  "bater_ponto_filial cpf d =
     (if cpf \<in> f_cpf ` set (funcionarios d) then Inl KeyError else Inr None)"
proof (cases "find (\<lambda>f. f_cpf f = cpf) (funcionarios d)")
  case None
  then have "cpf \<notin> f_cpf ` set (funcionarios d)"
    by (auto simp: find_None_iff)
  with None show ?thesis by (simp add: bater_ponto_filial_def)
next
  case (Some f)
  then have "cpf \<in> f_cpf ` set (funcionarios d)"
    by (auto simp: find_Some_iff)
  with Some show ?thesis by (simp add: bater_ponto_filial_def RealDictRow_getitem_def)
qed

text \<open>
  An employee who is on file and has an event left: line 168 raises \<open>KeyError\<close>, before
  anything is written.
\<close>

lemma bater_ponto_employee_found:
  assumes "cpf \<in> f_cpf ` set (funcionarios d)"
    and "obter_proximo_evento HP hoje cpf d \<noteq> Jornada_Finalizada"
  shows "bater_ponto HP T agora hoje cpf nome d = (Inl KeyError, d)"
  using assms by (simp add: bater_ponto_def bater_ponto_filial_cases Let_def)

text \<open>No call of \<open>bater_ponto\<close> changes the store.\<close>

lemma bater_ponto_store_unchanged:
  "snd (bater_ponto HP T agora hoje cpf nome d) = d"
  by (auto simp: bater_ponto_def bater_ponto_filial_cases Let_def insert_registro_def
      split: option.splits sum.splits)

text \<open>
  C3. The claim: for an employee with no punch today, the first call records Entry, the
  second Exit, and the third warns without writing. The code at the first call of an
  employee who is on file, under the two-event configuration: the call raises
  \<open>KeyError\<close> and records nothing.
\<close>

theorem C3_first_call_raises:
  "bater_ponto HORARIOS_PADRAO_spec 10 agora_exemplo agora_exemplo ''11122233344'' ''Ana''
       db_exemplo
     = (Inl KeyError, db_exemplo)"
  by (simp add: bater_ponto_def obter_proximo_evento_exemplo Entrada_def Jornada_Finalizada_def)
     (simp add: bater_ponto_filial_def db_exemplo_def RealDictRow_getitem_def)

text \<open>
  C7. The claim: every core operation turns a failure of the store into an error result.
  The code of \<open>bater_ponto\<close> for an identifier that is not on file: the \<open>INSERT\<close> violates
  the foreign key, and the \<open>psycopg2\<close> exception leaves the function.
\<close>

theorem C7_store_failure_propagates:
  "bater_ponto HORARIOS_PADRAO_spec 10 agora_exemplo agora_exemplo ''99999999999'' ''Zed''
       db_exemplo
     = (Inl (Psycopg2 ForeignKeyViolation), db_exemplo)"
  by (simp add: bater_ponto_def obter_proximo_evento_exemplo Entrada_def Jornada_Finalizada_def)
     (simp add: bater_ponto_filial_def db_exemplo_def bater_ponto_horarios_def
        HORARIOS_PADRAO_spec_def Entrada_def insert_registro_def Let_def)

text \<open>
  The message logic of lines 214-226 taken by itself: it would take the branch of line 226
  exactly when the raw deviation is not 0 and lies within the tolerance.
\<close>

lemma bater_ponto_status_final_dentro_da_tolerancia:
  "(bater_ponto_status_final (bater_ponto_diff_final T r) r = Dentro_Da_Tolerancia)
     = (r \<noteq> 0 \<and> \<bar>r\<bar> \<le> T)"
  by (auto simp: bater_ponto_status_final_def bater_ponto_diff_final_def)


subsection \<open>The schedule of the correction flow\<close>

text \<open>
  What the correction flow resolves, for every library: a site text is read through the
  first match of \<open>\d+\<close>; the number 3 or 4 gives 07:30 for Entry and 17:30 for any other
  event, and every other outcome (no site, empty text, no match, another number) gives
  the literals 08:00 and 18:00 of \<open>get_horario_padrao\<close>. No configuration is read.
\<close>

lemma filial_num_match:
  "txt \<noteq> [] \<Longrightarrow> re_search_d B txt = Some m \<Longrightarrow> int_str B m = Some n
     \<Longrightarrow> filial_num B (Some txt) = Inr (Some n)"
  by (simp add: filial_num_def)

lemma filial_num_no_match:
  "re_search_d B txt = None \<Longrightarrow> filial_num B (Some txt) = Inr None"
  by (simp add: filial_num_def)

lemma atualizar_registro_hora_prevista_cases:
  "filial_num B filial_tx = Inr n
     \<Longrightarrow> atualizar_registro_hora_prevista B filial_tx ev
         = Inr (if n \<in> {Some 3, Some 4}
                then (if ev = Entrada then mk_time 7 30 else mk_time 17 30)
                else (if ev = Entrada then mk_time 8 0 else mk_time 18 0))"
  by (simp add: atualizar_registro_hora_prevista_def get_horario_padrao_def)

lemma atualizar_registro_hora_prevista_Matriz:
  "atualizar_registro_hora_prevista biblioteca_ascii (Some ''Matriz'') ev
     = Inr (if ev = Entrada then mk_time 8 0 else mk_time 18 0)"
  by (simp add: atualizar_registro_hora_prevista_def filial_num_def biblioteca_ascii_def
      re_search_digits_ascii_def is_digit_ascii_def get_horario_padrao_def)

lemma atualizar_registro_hora_prevista_Filial_03:
  "atualizar_registro_hora_prevista biblioteca_ascii (Some ''Filial 03'') ev
     = Inr (if ev = Entrada then mk_time 7 30 else mk_time 17 30)"
  by (simp add: atualizar_registro_hora_prevista_def filial_num_def biblioteca_ascii_def
      re_search_digits_ascii_def is_digit_ascii_def int_of_digits_ascii_def digit_val_ascii_def
      get_horario_padrao_def)

text \<open>
  The two tests of the site do not accept the same labels: the recording flow compares
  the site with four literal labels (line 170), the correction flow reads its first number
  (lines 281-286). No execution of the recording flow reaches line 170 with a label
  (lemma \<open>bater_ponto_filial_cases\<close>), so the difference does not show in a run.
\<close>

lemma site_tests_differ_on_labels:
  "map_of (bater_ponto_horarios HORARIOS_PADRAO_spec (Some ''FILIAL 3'')) Entrada
     = Some (mk_time 8 0)
   \<and> atualizar_registro_hora_prevista biblioteca_ascii (Some ''FILIAL 3'') Entrada
     = Inr (mk_time 7 30)"
  by (simp add: bater_ponto_horarios_def HORARIOS_PADRAO_spec_def
      atualizar_registro_hora_prevista_def filial_num_def biblioteca_ascii_def
      re_search_digits_ascii_def is_digit_ascii_def int_of_digits_ascii_def digit_val_ascii_def
      get_horario_padrao_def)

subsection \<open>Correcting a punch\<close>

lemma py_round_ratio_multiple: "0 < d \<Longrightarrow> py_round_ratio (k * d) d = k"
  by (simp add: py_round_ratio_def Let_def)

text \<open>The raw deviation of the correction flow is a whole number of minutes.\<close>

lemma atualizar_registro_diff_bruta_minutes:
  "atualizar_registro_diff_bruta novo_obj hp
     = (int (hour novo_obj) * 60 + int (minute novo_obj)) - (int (hour hp) * 60 + int (minute hp))"
proof -
  have "((int (hour novo_obj) - int (hour hp)) * 3600
          + (int (minute novo_obj) - int (minute hp)) * 60) * 1000000
      = ((int (hour novo_obj) * 60 + int (minute novo_obj)) - (int (hour hp) * 60 + int (minute hp)))
          * 60000000"
    by (simp add: algebra_simps)
  then show ?thesis
    unfolding atualizar_registro_diff_bruta_def
    by (simp only: py_round_ratio_multiple [of 60000000, simplified])
qed

lemma diff_bruta_seconds:
  "hour t1 = hour t2 \<Longrightarrow> minute t1 = minute t2
     \<Longrightarrow> atualizar_registro_diff_bruta t1 hp = atualizar_registro_diff_bruta t2 hp"
  by (simp add: atualizar_registro_diff_bruta_def)

lemma strptime_HMS_180500:
  "strptime_HMS biblioteca_ascii ''18:05:00''
     = Some \<lparr>hour = 18, minute = 5, second = 0, microsecond = 0\<rparr>"
  by (simp add: biblioteca_ascii_def strptime_HMS_ascii_def campo_ascii_def is_digit_ascii_def
      int_of_digits_ascii_def digit_val_ascii_def)

lemma strptime_HMS_180559:
  "strptime_HMS biblioteca_ascii ''18:05:59''
     = Some \<lparr>hour = 18, minute = 5, second = 59, microsecond = 0\<rparr>"
  by (simp add: biblioteca_ascii_def strptime_HMS_ascii_def campo_ascii_def is_digit_ascii_def
      int_of_digits_ascii_def digit_val_ascii_def)

lemma strptime_HMS_190000:
  "strptime_HMS biblioteca_ascii ''19:00:00''
     = Some \<lparr>hour = 19, minute = 0, second = 0, microsecond = 0\<rparr>"
  by (simp add: biblioteca_ascii_def strptime_HMS_ascii_def campo_ascii_def is_digit_ascii_def
      int_of_digits_ascii_def digit_val_ascii_def)

lemma strptime_HMS_malformed: "strptime_HMS biblioteca_ascii ''18:5'' = None"
  by (simp add: biblioteca_ascii_def strptime_HMS_ascii_def)

lemma strptime_Ymd_exemplo: "strptime_Ymd biblioteca_ascii ''2025-03-09'' = Some (2025, 3, 9)"
  by (simp add: biblioteca_ascii_def strptime_Ymd_ascii_def campo_ascii_def campo_dia_ascii_def
      is_digit_ascii_def int_of_digits_ascii_def digit_val_ascii_def days_in_month_def)

lemma find_registro_exemplo:
  "find (\<lambda>r. r_id r = ''11122233344-2025-03-09T18:25:00-03:00'') (registros db_exemplo) \<noteq> None"
  by (simp add: db_exemplo_def)

text \<open>
  The exit punch of the example store corrected to a well-formed time \<open>s\<close>: the deviation
  is measured from 18:00, and the time is stored as given.
\<close>

lemma atualizar_registro_exemplo:
  assumes "strptime_HMS biblioteca_ascii s = Some t"
  shows "atualizar_registro biblioteca_ascii 10 None ''11122233344-2025-03-09T18:25:00-03:00''
       (Some s) obs db_exemplo
   = (Inr (Registro_Atualizado, ''success''),
      db_exemplo\<lparr>registros :=
        [\<lparr>r_id = ''11122233344-2025-03-09T18:25:00-03:00'',
          r_cpf_funcionario = ''11122233344'', r_nome = ''Ana'', r_data = ''2025-03-09'',
          r_hora = s, r_descricao = Saida,
          r_diferenca_min =
            atualizar_registro_diff_final 10 (int (hour t) * 60 + int (minute t) - 1080),
          r_observacao = (case obs of None \<Rightarrow> Some [] | Some x \<Rightarrow> Some x)\<rparr>]\<rparr>)"
  using assms
  by (cases obs)
     (simp_all add: atualizar_registro_def atualizar_registro_corpo_def atualizar_observacao_def
      atualizar_horario_def select_registro_filial_def strptime_Ymd_exemplo
      atualizar_registro_hora_prevista_Matriz atualizar_registro_diff_bruta_minutes mk_time_def
      Entrada_def Saida_def db_exemplo_def)

text \<open>The same correction when the commit fails.\<close>

lemma atualizar_registro_commit_fails:
  "fst (atualizar_registro biblioteca_ascii 10 (Some 5) ''11122233344-2025-03-09T18:25:00-03:00''
         (Some ''18:05:00'') (Some ''ajuste'') db_exemplo)
   = Inr (Erro_No_Banco_De_Dados OperationalError, ''error'')"
  by (simp add: atualizar_registro_def atualizar_registro_corpo_def atualizar_observacao_def
      atualizar_horario_def select_registro_filial_def strptime_Ymd_exemplo strptime_HMS_180500
      atualizar_registro_hora_prevista_Matriz db_exemplo_def Let_def)

text \<open>
  C2. The claim: a site numbered 3 or 4 resolves to 07:30 and 17:30, and every other site
  takes its expected time from the configured mapping. The code under a configuration
  with the exit at 19:00, at the exit punch of an employee of the head office corrected
  to 19:00:00 with a tolerance of 10: the deviation stored is 50 minutes, measured from
  the 18:00 written in \<open>get_horario_padrao\<close>, not 0 as the configured 19:00 gives.
\<close>

theorem C2_default_not_from_configuration:
  "map_of HORARIOS_PADRAO_alterado Saida = Some (mk_time 19 0)
   \<and> atualizar_registro biblioteca_ascii 10 None ''11122233344-2025-03-09T18:25:00-03:00''
       (Some ''19:00:00'') None db_exemplo
     = (Inr (Registro_Atualizado, ''success''),
        db_exemplo\<lparr>registros :=
          [\<lparr>r_id = ''11122233344-2025-03-09T18:25:00-03:00'',
            r_cpf_funcionario = ''11122233344'', r_nome = ''Ana'', r_data = ''2025-03-09'',
            r_hora = ''19:00:00'', r_descricao = Saida, r_diferenca_min = 50,
            r_observacao = Some []\<rparr>]\<rparr>)"
  by (simp add: atualizar_registro_exemplo [OF strptime_HMS_190000]
      atualizar_registro_diff_final_def HORARIOS_PADRAO_alterado_def Entrada_neq_Saida)

text \<open>
  C4. The claim: the recording flow and the correction flow resolve the same expected time
  for the same site and event. The code under a configuration with the entry at 09:00,
  at the pair the recording flow resolves for an identifier that is not on file (no site,
  the Entry event): the recording flow reads the configured 09:00, the correction flow
  gives 08:00.
\<close>

theorem C4_default_schedules_disagree:
  "bater_ponto_filial ''99999999999'' db_exemplo = Inr None
   \<and> obter_proximo_evento HORARIOS_PADRAO_alterado agora_exemplo ''99999999999'' db_exemplo
       = Entrada
   \<and> map_of (bater_ponto_horarios HORARIOS_PADRAO_alterado None) Entrada = Some (mk_time 9 0)
   \<and> atualizar_registro_hora_prevista biblioteca_ascii None Entrada = Inr (mk_time 8 0)
   \<and> mk_time 9 0 \<noteq> mk_time 8 0"
proof -
  have "bater_ponto_filial ''99999999999'' db_exemplo = Inr None"
    by (simp add: bater_ponto_filial_def db_exemplo_def)
  moreover have "map_of (bater_ponto_horarios HORARIOS_PADRAO_alterado None) Entrada
      = Some (mk_time 9 0)"
    by (simp add: bater_ponto_horarios_def HORARIOS_PADRAO_alterado_def)
  moreover have "atualizar_registro_hora_prevista biblioteca_ascii None Entrada
      = Inr (mk_time 8 0)"
    by (simp add: atualizar_registro_hora_prevista_def filial_num_def get_horario_padrao_def)
  moreover have "mk_time 9 0 \<noteq> mk_time 8 0"
    by (simp add: mk_time_def)
  ultimately show ?thesis
    using obter_proximo_evento_alterado [of "''99999999999''"] by simp
qed

text \<open>
  C5. A call of the correction that does not end in success leaves the store as it was:
  neither the annotation nor the time of any punch is kept. The punch that is not found,
  the malformed time after the annotation was updated, and the failure of the store are
  each an error result with the store unchanged.
\<close>

theorem C5_all_or_nothing:
  "(fst (atualizar_registro B T falha i h obs d) \<noteq> Inr (Registro_Atualizado, ''success'')
      \<longrightarrow> snd (atualizar_registro B T falha i h obs d) = d)
   \<and> (falha \<notin> {Some 0, Some 1} \<and> find (\<lambda>r. r_id r = i) (registros d) = None
      \<longrightarrow> atualizar_registro B T falha i h obs d = (Inr (Registro_Nao_Encontrado, ''error''), d))
   \<and> (falha \<notin> {Some 0, Some 1, Some 2} \<and> find (\<lambda>r. r_id r = i) (registros d) \<noteq> None
        \<and> strptime_HMS B s = None
      \<longrightarrow> atualizar_registro B T falha i (Some s) obs d
            = (Inr (Formato_De_Hora_Invalido, ''error''), d))
   \<and> (falha \<in> {Some 0, Some 1}
      \<longrightarrow> atualizar_registro B T falha i h obs d
            = (Inr (Erro_No_Banco_De_Dados OperationalError, ''error''), d))"
proof (intro conjI impI)
  show "snd (atualizar_registro B T falha i h obs d) = d"
    if "fst (atualizar_registro B T falha i h obs d) \<noteq> Inr (Registro_Atualizado, ''success'')"
    using that by (auto simp: atualizar_registro_def split: sum.splits py_error.splits)
  show "atualizar_registro B T falha i h obs d = (Inr (Registro_Nao_Encontrado, ''error''), d)"
    if "falha \<notin> {Some 0, Some 1} \<and> find (\<lambda>r. r_id r = i) (registros d) = None"
    using that by (simp add: atualizar_registro_def atualizar_registro_corpo_def)
  show "atualizar_registro B T falha i (Some s) obs d
          = (Inr (Formato_De_Hora_Invalido, ''error''), d)"
    if "falha \<notin> {Some 0, Some 1, Some 2} \<and> find (\<lambda>r. r_id r = i) (registros d) \<noteq> None
        \<and> strptime_HMS B s = None"
    using that
    by (auto simp: atualizar_registro_def atualizar_registro_corpo_def atualizar_observacao_def
        atualizar_horario_def split: option.splits)
  show "atualizar_registro B T falha i h obs d
            = (Inr (Erro_No_Banco_De_Dados OperationalError, ''error''), d)"
    if "falha \<in> {Some 0, Some 1}"
    using that by (auto simp: atualizar_registro_def atualizar_registro_corpo_def)
qed

theorem C5_all_or_nothing_witness:
  "atualizar_registro biblioteca_ascii 10 None ''11122233344-2025-03-09T18:25:00-03:00''
       (Some ''18:5'') (Some ''ajuste'') db_exemplo
     = (Inr (Formato_De_Hora_Invalido, ''error''), db_exemplo)
   \<and> atualizar_registro biblioteca_ascii 10 None ''nenhum'' (Some ''18:05:00'') (Some ''ajuste'')
       db_exemplo
     = (Inr (Registro_Nao_Encontrado, ''error''), db_exemplo)
   \<and> atualizar_registro biblioteca_ascii 10 (Some 1) ''nenhum'' (Some ''18:05:00'')
       (Some ''ajuste'') db_exemplo
     = (Inr (Erro_No_Banco_De_Dados OperationalError, ''error''), db_exemplo)
   \<and> fst (atualizar_registro biblioteca_ascii 10 (Some 5)
         ''11122233344-2025-03-09T18:25:00-03:00'' (Some ''18:05:00'') (Some ''ajuste'')
         db_exemplo)
     = Inr (Erro_No_Banco_De_Dados OperationalError, ''error'')
   \<and> snd (atualizar_registro biblioteca_ascii 10 (Some 5)
         ''11122233344-2025-03-09T18:25:00-03:00'' (Some ''18:05:00'') (Some ''ajuste'')
         db_exemplo)
     = db_exemplo"
  using C5_all_or_nothing [of biblioteca_ascii 10 None
          "''11122233344-2025-03-09T18:25:00-03:00''" "Some ''18:5''" "Some ''ajuste''"
          db_exemplo "''18:5''"]
        C5_all_or_nothing [of biblioteca_ascii 10 None "''nenhum''" "Some ''18:05:00''"
          "Some ''ajuste''" db_exemplo "''x''"]
        C5_all_or_nothing [of biblioteca_ascii 10 "Some 1" "''nenhum''" "Some ''18:05:00''"
          "Some ''ajuste''" db_exemplo "''x''"]
        C5_all_or_nothing [of biblioteca_ascii 10 "Some 5"
          "''11122233344-2025-03-09T18:25:00-03:00''" "Some ''18:05:00''" "Some ''ajuste''"
          db_exemplo "''x''"]
        strptime_HMS_malformed find_registro_exemplo atualizar_registro_commit_fails
  by (simp add: db_exemplo_def)

lemma list_all2_map_self:
  "list_all2 P xs (map f xs) = list_all (\<lambda>x. P x (f x)) xs"
  by (induction xs) auto

lemma atualizar_observacao_frame:
  assumes "atualizar_observacao falha i obs t = Inr (t', n)"
  shows "empresas t' = empresas t \<and> funcionarios t' = funcionarios t
     \<and> empresas_id_seq t' = empresas_id_seq t
     \<and> list_all2 (\<lambda>r r'. r' = r\<lparr>r_observacao := r_observacao r'\<rparr> \<and> (r_id r \<noteq> i \<longrightarrow> r' = r))
          (registros t) (registros t')"
  using assms
  by (auto simp: atualizar_observacao_def list_all2_map_self list_all_iff list_all2_same
      split: option.splits if_splits)

lemma atualizar_horario_frame:
  assumes "atualizar_horario B T falha i h t = Inr (Inr (t', n))"
  shows "empresas t' = empresas t \<and> funcionarios t' = funcionarios t
     \<and> empresas_id_seq t' = empresas_id_seq t
     \<and> list_all2 (\<lambda>r r'. r' = r\<lparr>r_hora := r_hora r', r_diferenca_min := r_diferenca_min r'\<rparr>
                        \<and> (r_id r \<noteq> i \<longrightarrow> r' = r))
          (registros t) (registros t')"
  using assms
  by (auto simp: atualizar_horario_def list_all2_map_self list_all_iff list_all2_same Let_def
      split: option.splits if_splits prod.splits sum.splits)

lemma atualizar_registro_corpo_success:
  assumes "atualizar_registro_corpo B T falha i h obs d = Inr (Inr t2)"
  shows "\<exists>t1 n1 n2. atualizar_observacao falha i obs d = Inr (t1, n1)
            \<and> atualizar_horario B T falha i h t1 = Inr (Inr (t2, n2))"
  using assms
  by (auto simp: atualizar_registro_corpo_def
      split: option.splits if_splits sum.splits prod.splits)

lemma atualizar_registro_success:
  assumes "atualizar_registro B T falha i h obs d = (Inr (Registro_Atualizado, ''success''), d')"
  shows "atualizar_registro_corpo B T falha i h obs d = Inr (Inr d')"
proof (cases "atualizar_registro_corpo B T falha i h obs d")
  case (Inl e)
  with assms show ?thesis
    by (cases e) (simp_all add: atualizar_registro_def)
next
  case (Inr x)
  show ?thesis
  proof (cases x)
    case (Inl ret)
    have "ret \<noteq> (Registro_Atualizado, ''success'')"
      using Inr Inl
      by (auto simp: atualizar_registro_corpo_def atualizar_horario_def Let_def
          split: option.splits if_splits sum.splits prod.splits)
    with assms Inr Inl show ?thesis by (simp add: atualizar_registro_def)
  next
    case (Inr tx2)
    with assms \<open>atualizar_registro_corpo B T falha i h obs d = Inr x\<close> show ?thesis
      by (simp add: atualizar_registro_def)
  qed
qed

text \<open>
  C9. After a successful correction the tables of companies and employees are as before,
  the punches are the same rows in the same order, each with its id, employee, name, date
  and event unchanged, and a punch with another id is unchanged altogether.
\<close>

theorem C9_frame:
  assumes "atualizar_registro B T falha i h obs d = (Inr (Registro_Atualizado, ''success''), d')"
  shows "empresas d' = empresas d \<and> funcionarios d' = funcionarios d
     \<and> list_all2 (\<lambda>r r'. r_id r' = r_id r \<and> r_cpf_funcionario r' = r_cpf_funcionario r
                        \<and> r_nome r' = r_nome r \<and> r_data r' = r_data r
                        \<and> r_descricao r' = r_descricao r
                        \<and> (r_id r \<noteq> i \<longrightarrow> r' = r))
          (registros d) (registros d')"
proof -
  from atualizar_registro_success [OF assms] atualizar_registro_corpo_success
  obtain t1 n1 n2 where o: "atualizar_observacao falha i obs d = Inr (t1, n1)"
    and hh: "atualizar_horario B T falha i h t1 = Inr (Inr (d', n2))"
    by blast
  note fo = atualizar_observacao_frame [OF o]
  note fh = atualizar_horario_frame [OF hh]
  have "list_all2 (\<lambda>r r'. r_id r' = r_id r \<and> r_cpf_funcionario r' = r_cpf_funcionario r
                        \<and> r_nome r' = r_nome r \<and> r_data r' = r_data r
                        \<and> r_descricao r' = r_descricao r
                        \<and> (r_id r \<noteq> i \<longrightarrow> r' = r))
          (registros d) (registros d')"
  proof (rule list_all2_trans
      [where ?P1.0 = "\<lambda>r r'. r' = r\<lparr>r_observacao := r_observacao r'\<rparr> \<and> (r_id r \<noteq> i \<longrightarrow> r' = r)"
         and ?P2.0 = "\<lambda>r r'. r' = r\<lparr>r_hora := r_hora r', r_diferenca_min := r_diferenca_min r'\<rparr>
                        \<and> (r_id r \<noteq> i \<longrightarrow> r' = r)"
         and bs = "registros t1"])
    fix a b c :: registro
    assume 1: "b = a\<lparr>r_observacao := r_observacao b\<rparr> \<and> (r_id a \<noteq> i \<longrightarrow> b = a)"
      and 2: "c = b\<lparr>r_hora := r_hora c, r_diferenca_min := r_diferenca_min c\<rparr>
                \<and> (r_id b \<noteq> i \<longrightarrow> c = b)"
    have "r_id b = r_id a" "r_cpf_funcionario b = r_cpf_funcionario a" "r_nome b = r_nome a"
      "r_data b = r_data a" "r_descricao b = r_descricao a"
      using 1 by (metis registro.select_convs registro.surjective registro.update_convs)+
    moreover have "r_id c = r_id b" "r_cpf_funcionario c = r_cpf_funcionario b"
      "r_nome c = r_nome b" "r_data c = r_data b" "r_descricao c = r_descricao b"
      using 2 by (metis registro.select_convs registro.surjective registro.update_convs)+
    ultimately show "r_id c = r_id a \<and> r_cpf_funcionario c = r_cpf_funcionario a
                        \<and> r_nome c = r_nome a \<and> r_data c = r_data a
                        \<and> r_descricao c = r_descricao a
                        \<and> (r_id a \<noteq> i \<longrightarrow> c = a)"
      using 1 2 by auto
  next
    show "list_all2 (\<lambda>r r'. r' = r\<lparr>r_observacao := r_observacao r'\<rparr> \<and> (r_id r \<noteq> i \<longrightarrow> r' = r))
            (registros d) (registros t1)"
      using fo by simp
    show "list_all2 (\<lambda>r r'. r' = r\<lparr>r_hora := r_hora r', r_diferenca_min := r_diferenca_min r'\<rparr>
                        \<and> (r_id r \<noteq> i \<longrightarrow> r' = r)) (registros t1) (registros d')"
      using fh by simp
  qed
  then show ?thesis using fo fh by simp
qed

theorem C9_frame_witness:
  "atualizar_registro biblioteca_ascii 10 None ''11122233344-2025-03-09T18:25:00-03:00''
       (Some ''18:05:00'') (Some ''ajuste'') db_exemplo
   = (Inr (Registro_Atualizado, ''success''),
      db_exemplo\<lparr>registros :=
        [\<lparr>r_id = ''11122233344-2025-03-09T18:25:00-03:00'',
          r_cpf_funcionario = ''11122233344'', r_nome = ''Ana'', r_data = ''2025-03-09'',
          r_hora = ''18:05:00'', r_descricao = Saida, r_diferenca_min = 0,
          r_observacao = Some ''ajuste''\<rparr>]\<rparr>)
   \<and> funcionarios (db_exemplo\<lparr>registros :=
        [\<lparr>r_id = ''11122233344-2025-03-09T18:25:00-03:00'',
          r_cpf_funcionario = ''11122233344'', r_nome = ''Ana'', r_data = ''2025-03-09'',
          r_hora = ''18:05:00'', r_descricao = Saida, r_diferenca_min = 0,
          r_observacao = Some ''ajuste''\<rparr>]\<rparr>) = funcionarios db_exemplo
   \<and> list_all2 (\<lambda>r r'. r_id r' = r_id r \<and> r_cpf_funcionario r' = r_cpf_funcionario r
                        \<and> r_nome r' = r_nome r \<and> r_data r' = r_data r
                        \<and> r_descricao r' = r_descricao r
                        \<and> (r_id r \<noteq> ''11122233344-2025-03-09T18:25:00-03:00'' \<longrightarrow> r' = r))
          (registros db_exemplo)
          (registros (db_exemplo\<lparr>registros :=
        [\<lparr>r_id = ''11122233344-2025-03-09T18:25:00-03:00'',
          r_cpf_funcionario = ''11122233344'', r_nome = ''Ana'', r_data = ''2025-03-09'',
          r_hora = ''18:05:00'', r_descricao = Saida, r_diferenca_min = 0,
          r_observacao = Some ''ajuste''\<rparr>]\<rparr>))"
proof -
  have e: "atualizar_registro biblioteca_ascii 10 None ''11122233344-2025-03-09T18:25:00-03:00''
       (Some ''18:05:00'') (Some ''ajuste'') db_exemplo
   = (Inr (Registro_Atualizado, ''success''),
      db_exemplo\<lparr>registros :=
        [\<lparr>r_id = ''11122233344-2025-03-09T18:25:00-03:00'',
          r_cpf_funcionario = ''11122233344'', r_nome = ''Ana'', r_data = ''2025-03-09'',
          r_hora = ''18:05:00'', r_descricao = Saida, r_diferenca_min = 0,
          r_observacao = Some ''ajuste''\<rparr>]\<rparr>)"
    by (simp add: atualizar_registro_exemplo [OF strptime_HMS_180500]
        atualizar_registro_diff_final_def)
  show ?thesis
    using C9_frame [OF e] e by simp
qed

lemma so_hora_mesmo_desvio:
  "list_all2 (\<lambda>a b :: registro. b = a\<lparr>r_hora := r_hora b\<rparr>) xs ys
     \<Longrightarrow> map r_diferenca_min xs = map r_diferenca_min ys"
proof (induction xs ys rule: list_all2_induct)
  case Nil
  then show ?case by simp
next
  case (Cons x xs y ys)
  have "r_diferenca_min (x\<lparr>r_hora := r_hora y\<rparr>) = r_diferenca_min x" by simp
  with Cons show ?case by simp
qed

text \<open>
  Two times of day that agree on hour and minute take the time update down the same path:
  the same exception, or the same row count with tables that differ in \<open>hora\<close> only.
\<close>

lemma atualizar_horario_pair:
  assumes "strptime_HMS B s1 = Some t1" "strptime_HMS B s2 = Some t2"
    and "hour t1 = hour t2" "minute t1 = minute t2"
  shows "(\<exists>e. atualizar_horario B T falha i (Some s1) t = Inl e
             \<and> atualizar_horario B T falha i (Some s2) t = Inl e)
       \<or> (\<exists>u1 u2 n. atualizar_horario B T falha i (Some s1) t = Inr (Inr (u1, n))
             \<and> atualizar_horario B T falha i (Some s2) t = Inr (Inr (u2, n))
             \<and> list_all2 (\<lambda>a b. b = a\<lparr>r_hora := r_hora b\<rparr>) (registros u1) (registros u2))"
  using assms diff_bruta_seconds [OF assms(3,4)]
  by (auto simp: atualizar_horario_def Let_def list_all2_map1 list_all2_map2 list_all2_same
      split: option.splits prod.splits sum.splits)

lemma atualizar_registro_corpo_pair:
  assumes "strptime_HMS B s1 = Some t1" "strptime_HMS B s2 = Some t2"
    and "hour t1 = hour t2" "minute t1 = minute t2"
  shows "(\<exists>e. atualizar_registro_corpo B T falha i (Some s1) obs d = Inl e
             \<and> atualizar_registro_corpo B T falha i (Some s2) obs d = Inl e)
       \<or> (\<exists>ret. atualizar_registro_corpo B T falha i (Some s1) obs d = Inr (Inl ret)
             \<and> atualizar_registro_corpo B T falha i (Some s2) obs d = Inr (Inl ret))
       \<or> (\<exists>u1 u2. atualizar_registro_corpo B T falha i (Some s1) obs d = Inr (Inr u1)
             \<and> atualizar_registro_corpo B T falha i (Some s2) obs d = Inr (Inr u2)
             \<and> list_all2 (\<lambda>a b. b = a\<lparr>r_hora := r_hora b\<rparr>) (registros u1) (registros u2))"
proof (cases "falha = Some 0 \<or> falha = Some 1")
  case True
  then show ?thesis by (auto simp: atualizar_registro_corpo_def)
next
  case False
  note nf = this
  show ?thesis
  proof (cases "find (\<lambda>r. r_id r = i) (registros d)")
    case None
    with nf show ?thesis by (auto simp: atualizar_registro_corpo_def)
  next
    case (Some reg)
    show ?thesis
    proof (cases "atualizar_observacao falha i obs d")
      case (Inl e)
      with nf Some show ?thesis by (auto simp: atualizar_registro_corpo_def)
    next
      case (Inr p)
      obtain w n1 where p: "p = (w, n1)" by (cases p)
      from atualizar_horario_pair [OF assms, of T falha i w]
      show ?thesis
      proof (elim disjE exE conjE)
        fix e
        assume "atualizar_horario B T falha i (Some s1) w = Inl e"
          "atualizar_horario B T falha i (Some s2) w = Inl e"
        with nf Some Inr p show ?thesis by (simp add: atualizar_registro_corpo_def)
      next
        fix u1 u2 n
        assume "atualizar_horario B T falha i (Some s1) w = Inr (Inr (u1, n))"
          "atualizar_horario B T falha i (Some s2) w = Inr (Inr (u2, n))"
          "list_all2 (\<lambda>a b. b = a\<lparr>r_hora := r_hora b\<rparr>) (registros u1) (registros u2)"
        with nf Some Inr p show ?thesis by (simp add: atualizar_registro_corpo_def)
      qed
    qed
  qed
qed

text \<open>The annotation update does not change what the join of line 268 returns.\<close>

lemma join_row:
  "concat (map (\<lambda>f. if f_cpf f = r_cpf_funcionario a
                      then [(r_descricao (a\<lparr>r_observacao := x\<rparr>),
                             r_data (a\<lparr>r_observacao := x\<rparr>), f_filial f)]
                      else []) fs)
   = concat (map (\<lambda>f. if f_cpf f = r_cpf_funcionario a
                      then [(r_descricao a, r_data a, f_filial f)] else []) fs)"
  by (induction fs) auto

lemma join_obs:
  "[(r_descricao r, r_data r, f_filial f).
      r \<leftarrow> map (\<lambda>r. if r_id r = i then r\<lparr>r_observacao := x\<rparr> else r) rs, r_id r = i,
      f \<leftarrow> fs, f_cpf f = r_cpf_funcionario r]
   = [(r_descricao r, r_data r, f_filial f).
      r \<leftarrow> rs, r_id r = i, f \<leftarrow> fs, f_cpf f = r_cpf_funcionario r]"
  by (induction rs) (auto simp: join_row)

lemma select_registro_filial_obs:
  "select_registro_filial i
     (t\<lparr>registros := map (\<lambda>r. if r_id r = i then r\<lparr>r_observacao := x\<rparr> else r) (registros t)\<rparr>)
   = select_registro_filial i t"
proof -
  have "[(r_descricao r, r_data r, f_filial f).
      r \<leftarrow> map (\<lambda>r. if r_id r = i then r\<lparr>r_observacao := x\<rparr> else r) (registros t), r_id r = i,
      f \<leftarrow> funcionarios t, f_cpf f = r_cpf_funcionario r]
   = [(r_descricao r, r_data r, f_filial f).
      r \<leftarrow> registros t, r_id r = i, f \<leftarrow> funcionarios t, f_cpf f = r_cpf_funcionario r]"
    by (rule join_obs)
  then show ?thesis
    by (simp add: select_registro_filial_def del: map_map cong del: if_weak_cong)
qed

lemma select_registro_filial_atualizar_observacao:
  "atualizar_observacao falha i obs t = Inr (w, n)
     \<Longrightarrow> select_registro_filial i w = select_registro_filial i t"
  by (cases obs) (auto simp: atualizar_observacao_def select_registro_filial_obs split: if_splits)

lemma atualizar_horario_retains:
  assumes a: "atualizar_horario B T falha i (Some s) w = Inr (Inr (u, n))"
    and b: "select_registro_filial i w \<noteq> None"
  shows "list_all (\<lambda>r. r_id r = i \<longrightarrow> r_hora r = s) (registros u)"
proof -
  from b obtain de da fi where sel: "select_registro_filial i w = Some (de, da, fi)"
    by (cases "select_registro_filial i w") auto
  from a obtain t where p: "strptime_HMS B s = Some t"
    by (cases "strptime_HMS B s") (simp_all add: atualizar_horario_def)
  from a p sel obtain hp where hp: "atualizar_registro_hora_prevista B fi de = Inr hp"
    by (cases "atualizar_registro_hora_prevista B fi de")
       (simp_all add: atualizar_horario_def split: if_splits)
  from a p sel hp obtain dd where y: "strptime_Ymd B da = Some dd"
    by (cases "strptime_Ymd B da") (simp_all add: atualizar_horario_def split: if_splits)
  from a p sel hp y have ru: "registros u
      = map (\<lambda>r. if r_id r = i
                  then r\<lparr>r_hora := s,
                         r_diferenca_min := atualizar_registro_diff_final T
                           (atualizar_registro_diff_bruta t hp)\<rparr>
                  else r) (registros w)"
    by (auto simp: atualizar_horario_def Let_def split: if_splits)
  show ?thesis
    unfolding list_all_iff
  proof (intro ballI impI)
    fix r
    assume m: "r \<in> set (registros u)" and e: "r_id r = i"
    from m obtain r0 where r0: "r = (if r_id r0 = i
                  then r0\<lparr>r_hora := s,
                         r_diferenca_min := atualizar_registro_diff_final T
                           (atualizar_registro_diff_bruta t hp)\<rparr>
                  else r0)"
      unfolding ru by (auto simp only: set_map image_iff)
    show "r_hora r = s"
    proof (cases "r_id r0 = i")
      case True
      with r0 show ?thesis by simp
    next
      case False
      with r0 e show ?thesis by simp
    qed
  qed
qed

text \<open>
  C10. Two well-formed times that agree on hour and minute give the same result of the
  correction and the same stored deviations; the two stores differ at most in the stored
  time of day, which is the text that was supplied, seconds included.
\<close>

theorem C10_seconds:
  assumes "strptime_HMS B s1 = Some t1" "strptime_HMS B s2 = Some t2"
    and "hour t1 = hour t2" "minute t1 = minute t2"
  shows "fst (atualizar_registro B T falha i (Some s1) obs d)
           = fst (atualizar_registro B T falha i (Some s2) obs d)
     \<and> map r_diferenca_min (registros (snd (atualizar_registro B T falha i (Some s1) obs d)))
         = map r_diferenca_min (registros (snd (atualizar_registro B T falha i (Some s2) obs d)))
     \<and> list_all2 (\<lambda>a b. b = a\<lparr>r_hora := r_hora b\<rparr>)
          (registros (snd (atualizar_registro B T falha i (Some s1) obs d)))
          (registros (snd (atualizar_registro B T falha i (Some s2) obs d)))
     \<and> (fst (atualizar_registro B T falha i (Some s1) obs d)
            = Inr (Registro_Atualizado, ''success'')
          \<and> select_registro_filial i d \<noteq> None
        \<longrightarrow> list_all (\<lambda>r. r_id r = i \<longrightarrow> r_hora r = s1)
              (registros (snd (atualizar_registro B T falha i (Some s1) obs d))))"
proof -
  let ?R = "\<lambda>a b :: registro. b = a\<lparr>r_hora := r_hora b\<rparr>"
  let ?A1 = "atualizar_registro B T falha i (Some s1) obs d"
  let ?A2 = "atualizar_registro B T falha i (Some s2) obs d"
  have rel: "fst ?A1 = fst ?A2 \<and> list_all2 ?R (registros (snd ?A1)) (registros (snd ?A2))"
  proof (cases "atualizar_registro_corpo B T falha i (Some s1) obs d")
    case (Inl e)
    then have "atualizar_registro_corpo B T falha i (Some s2) obs d = Inl e"
      using atualizar_registro_corpo_pair [OF assms, of T falha i obs d] by auto
    with Inl show ?thesis
      by (auto simp: atualizar_registro_def list_all2_same split: py_error.splits)
  next
    case (Inr x)
    show ?thesis
    proof (cases x)
      case (Inl ret)
      then have "atualizar_registro_corpo B T falha i (Some s2) obs d = Inr (Inl ret)"
        using Inr atualizar_registro_corpo_pair [OF assms, of T falha i obs d] by auto
      with Inl Inr show ?thesis
        by (auto simp: atualizar_registro_def list_all2_same)
    next
      case (Inr u1)
      then obtain u2 where "atualizar_registro_corpo B T falha i (Some s2) obs d = Inr (Inr u2)"
        and "list_all2 ?R (registros u1) (registros u2)"
        using \<open>atualizar_registro_corpo B T falha i (Some s1) obs d = Inr x\<close>
          atualizar_registro_corpo_pair [OF assms, of T falha i obs d] by auto
      with Inr \<open>atualizar_registro_corpo B T falha i (Some s1) obs d = Inr x\<close> show ?thesis
        by (auto simp: atualizar_registro_def)
    qed
  qed
  moreover have "map r_diferenca_min (registros (snd ?A1))
      = map r_diferenca_min (registros (snd ?A2))"
    using rel so_hora_mesmo_desvio by blast
  moreover have "list_all (\<lambda>r. r_id r = i \<longrightarrow> r_hora r = s1) (registros (snd ?A1))"
    if ok: "fst ?A1 = Inr (Registro_Atualizado, ''success'') \<and> select_registro_filial i d \<noteq> None"
  proof -
    from ok have "?A1 = (Inr (Registro_Atualizado, ''success''), snd ?A1)"
      by (metis prod.collapse)
    from atualizar_registro_corpo_success [OF atualizar_registro_success [OF this]]
    obtain w n1 n2 where o: "atualizar_observacao falha i obs d = Inr (w, n1)"
      and hh: "atualizar_horario B T falha i (Some s1) w = Inr (Inr (snd ?A1, n2))"
      by blast
    have "select_registro_filial i w \<noteq> None"
      using select_registro_filial_atualizar_observacao [OF o] ok by simp
    then show ?thesis
      by (rule atualizar_horario_retains [OF hh])
  qed
  ultimately show ?thesis by blast
qed

theorem C10_seconds_witness:
  "fst (atualizar_registro biblioteca_ascii 10 None ''11122233344-2025-03-09T18:25:00-03:00''
          (Some ''18:05:00'') (Some ''ajuste'') db_exemplo)
     = fst (atualizar_registro biblioteca_ascii 10 None
          ''11122233344-2025-03-09T18:25:00-03:00'' (Some ''18:05:59'') (Some ''ajuste'')
          db_exemplo)
   \<and> map r_diferenca_min (registros (snd (atualizar_registro biblioteca_ascii 10 None
          ''11122233344-2025-03-09T18:25:00-03:00'' (Some ''18:05:00'') (Some ''ajuste'')
          db_exemplo))) = [0]
   \<and> map r_diferenca_min (registros (snd (atualizar_registro biblioteca_ascii 10 None
          ''11122233344-2025-03-09T18:25:00-03:00'' (Some ''18:05:59'') (Some ''ajuste'')
          db_exemplo))) = [0]
   \<and> map r_hora (registros (snd (atualizar_registro biblioteca_ascii 10 None
          ''11122233344-2025-03-09T18:25:00-03:00'' (Some ''18:05:59'') (Some ''ajuste'')
          db_exemplo))) = [''18:05:59'']"
  using C10_seconds [OF strptime_HMS_180500 strptime_HMS_180559, of 10 None
          "''11122233344-2025-03-09T18:25:00-03:00''" "Some ''ajuste''" db_exemplo]
        atualizar_registro_exemplo [OF strptime_HMS_180500, of "Some ''ajuste''"]
        atualizar_registro_exemplo [OF strptime_HMS_180559, of "Some ''ajuste''"]
  by (simp add: atualizar_registro_diff_final_def)

subsection \<open>Bulk import\<close>






















end
